theory Spec2Isabelle
  imports Main
begin

unbundle bit_operations_syntax

section \<open>The jot package: a gate in front of a printer\<close>

text \<open>
  The package \<^verbatim>\<open>jot\<close> keeps one package-level variable \<^verbatim>\<open>jotter\<close> of type
  \<^verbatim>\<open>Jotter\<close>, a struct of a flag \<^verbatim>\<open>enabled\<close> and a \<^verbatim>\<open>printer\<close>, and six functions
  that work on it. This theory embeds the file \<^verbatim>\<open>jot.go\<close>. The struct's type
  declaration, the interface \<^verbatim>\<open>Printer\<close> and the methods of \<^verbatim>\<open>*Jotter\<close> are declared
  elsewhere in the package; they are modelled below from the specification's
  description of the Gate, and marked as such.
\<close>

subsection \<open>Values handed to a printer\<close>

text \<open>
  The variadic parameter \<^verbatim>\<open>v ...interface{}\<close> is a list of dynamically typed
  values. The package never inspects them, so a small universe of values suffices.
\<close>

datatype gval = GNil | GBool bool | GInt int | GString string

subsection \<open>The standard library's logger\<close>

text \<open>
  Declarations of Go's packages \<^verbatim>\<open>os\<close> and \<^verbatim>\<open>log\<close> that the initialiser of
  \<^verbatim>\<open>jotter\<close> uses. The flag bits are the constants of package \<^verbatim>\<open>log\<close>
  (\<^verbatim>\<open>Ldate = 1 << iota\<close> and the following ones, \<^verbatim>\<open>LstdFlags = Ldate | Ltime\<close>);
  \<^verbatim>\<open>log.New\<close> stores its three arguments in a new logger.
\<close>

datatype Writer = Stdout | Stderr | OtherWriter nat

record Logger =
  out :: Writer
  prefix :: string
  flag :: int

definition Ldate :: int where "Ldate = push_bit 0 1"
definition Ltime :: int where "Ltime = push_bit 1 1"
definition Lmicroseconds :: int where "Lmicroseconds = push_bit 2 1"
definition Llongfile :: int where "Llongfile = push_bit 3 1"
definition Lshortfile :: int where "Lshortfile = push_bit 4 1"
definition LUTC :: int where "LUTC = push_bit 5 1"
definition Lmsgprefix :: int where "Lmsgprefix = push_bit 6 1"
definition LstdFlags :: int where "LstdFlags = Ldate OR Ltime"

definition log_New :: "Writer \<Rightarrow> string \<Rightarrow> int \<Rightarrow> Logger" where
  "log_New w p f = \<lparr>out = w, prefix = p, flag = f\<rparr>"

text \<open>The logger's test of one flag bit, \<^verbatim>\<open>flag&b != 0\<close>.\<close>

definition has_flag :: "int \<Rightarrow> int \<Rightarrow> bool" where
  "has_flag f b = (f AND b \<noteq> 0)"

subsection \<open>Printers and the calls they receive\<close>

text \<open>
  The interface \<^verbatim>\<open>Printer\<close> is declared outside \<^verbatim>\<open>jot.go\<close>; the package's
  documentation in \<^verbatim>\<open>jot.go\<close> describes it.
  A \<^verbatim>\<open>Printer\<close> is anything with the methods \<^verbatim>\<open>Print\<close>, \<^verbatim>\<open>Printf\<close> and
  \<^verbatim>\<open>Println\<close>: a \<^verbatim>\<open>*log.Logger\<close>, or a value of the caller's own, known here by
  a reference only. A variable of the interface type may also hold \<^verbatim>\<open>nil\<close>, so the
  field is a \<open>Printer option\<close> with \<open>None\<close> for \<^verbatim>\<open>nil\<close>.

  What a printer does with a call is its own business. The model records each call a
  printer receives, with the receiver and the arguments as passed, in order.
\<close>

datatype Printer = LogLogger Logger | CustomPrinter nat

datatype sink_call =
  PrintCall "gval list"
  | PrintfCall string "gval list"
  | PrintlnCall "gval list"

type_synonym event = "Printer \<times> sink_call"

text \<open>Calling a method through a nil interface value is a run-time panic in Go.\<close>

datatype panic = NilPointerDereference

subsection \<open>The Jotter and its methods\<close>

text \<open>
  The struct, with the two fields that the initialiser of \<^verbatim>\<open>jotter\<close> in \<^verbatim>\<open>jot.go\<close>
  names: \<^verbatim>\<open>Jotter{enabled: false, printer: ...}\<close>.
\<close>

record Jotter =
  enabled :: bool
  printer :: "Printer option"

text \<open>
  \<^verbatim>\<open>jot.go\<close> calls the methods \<^verbatim>\<open>Enable\<close>, \<^verbatim>\<open>Disable\<close>, \<^verbatim>\<open>Print\<close>, \<^verbatim>\<open>Printf\<close> and
  \<^verbatim>\<open>Println\<close> of \<^verbatim>\<open>*Jotter\<close> and does not define them. Each is modelled from the
  specification's description of the Gate. A method returns the Jotter as it leaves it
  and the calls it made to printers.
\<close>

text \<open>
  Modelled from the spec: the method \<^verbatim>\<open>(*Jotter).Enable\<close>, missing from the sources.
  \<^emph>\<open>Enable() sets enabled = true. No inputs, no failure modes.\<close>
\<close>

definition Jotter_Enable :: "Jotter \<Rightarrow> Jotter" where
  "Jotter_Enable j = j\<lparr>enabled := True\<rparr>"

text \<open>
  Modelled from the spec: the method \<^verbatim>\<open>(*Jotter).Disable\<close>, missing from the sources.
  \<^emph>\<open>Disable() sets enabled = false. No failure modes.\<close>
\<close>

definition Jotter_Disable :: "Jotter \<Rightarrow> Jotter" where
  "Jotter_Disable j = j\<lparr>enabled := False\<rparr>"

text \<open>
  Modelled from the spec: the gating that the three printing methods share, missing
  from the sources. \<^emph>\<open>If enabled, forwards args unmodified to the sink; else no-op.\<close>
  The forwarding is a method call on the field \<^verbatim>\<open>printer\<close>, which panics in Go when
  the field is nil; a disabled Jotter does not touch the field.
\<close>

definition forward :: "sink_call \<Rightarrow> Jotter \<Rightarrow> panic + Jotter \<times> event list" where
  "forward c j =
     (if enabled j
      then (case printer j of
              None \<Rightarrow> Inl NilPointerDereference
            | Some p \<Rightarrow> Inr (j, [(p, c)]))
      else Inr (j, []))"

text \<open>
  Modelled from the spec: the method \<^verbatim>\<open>(*Jotter).Print\<close>, missing from the sources.
  \<^emph>\<open>Print(args): if enabled, forwards args unmodified to sink.Print(args); else no-op.\<close>
\<close>

definition Jotter_Print :: "gval list \<Rightarrow> Jotter \<Rightarrow> panic + Jotter \<times> event list" where
  "Jotter_Print v j = forward (PrintCall v) j"

text \<open>
  Modelled from the spec: the method \<^verbatim>\<open>(*Jotter).Printf\<close>, missing from the sources.
  \<^emph>\<open>Printf(format, args): same gating, forwards to sink.Printf(format, args).\<close>
\<close>

definition Jotter_Printf :: "string \<Rightarrow> gval list \<Rightarrow> Jotter \<Rightarrow> panic + Jotter \<times> event list" where
  "Jotter_Printf format v j = forward (PrintfCall format v) j"

text \<open>
  Modelled from the spec: the method \<^verbatim>\<open>(*Jotter).Println\<close>, missing from the sources.
  \<^emph>\<open>Println(args): same gating, forwards to sink.Println(args).\<close>
\<close>

definition Jotter_Println :: "gval list \<Rightarrow> Jotter \<Rightarrow> panic + Jotter \<times> event list" where
  "Jotter_Println v j = forward (PrintlnCall v) j"

subsection \<open>The package: its variable and its functions\<close>

text \<open>
  The state of the package is the variable \<^verbatim>\<open>jotter\<close>; beside it the model keeps
  the calls that printers have received so far.
\<close>

record package =
  jotter :: Jotter
  received :: "event list"

text \<open>
  \<^verbatim>\<open>var jotter = Jotter{enabled: false, printer: log.New(os.Stderr, "", log.LstdFlags)}\<close>
\<close>

definition jotter_init :: Jotter where
  "jotter_init = \<lparr>enabled = False, printer = Some (LogLogger (log_New Stderr [] LstdFlags))\<rparr>"

definition package_init :: package where
  "package_init = \<lparr>jotter = jotter_init, received = []\<rparr>"

text \<open>\<^verbatim>\<open>func SetPrinter(printer Printer) { jotter.printer = printer }\<close>\<close>

definition SetPrinter :: "Printer option \<Rightarrow> package \<Rightarrow> package" where
  "SetPrinter p s = s\<lparr>jotter := (jotter s)\<lparr>printer := p\<rparr>\<rparr>"

text \<open>\<^verbatim>\<open>func Enable() { jotter.Enable() }\<close> and \<^verbatim>\<open>func Disable() { jotter.Disable() }\<close>\<close>

definition Enable :: "package \<Rightarrow> package" where
  "Enable s = s\<lparr>jotter := Jotter_Enable (jotter s)\<rparr>"

definition Disable :: "package \<Rightarrow> package" where
  "Disable s = s\<lparr>jotter := Jotter_Disable (jotter s)\<rparr>"

text \<open>
  A method called on \<^verbatim>\<open>jotter\<close> works on the variable in place, and the calls it
  makes reach the printers after those made before; a panic leaves the function.
\<close>

definition on_jotter :: "(Jotter \<Rightarrow> panic + Jotter \<times> event list) \<Rightarrow> package \<Rightarrow> panic + package" where
  "on_jotter m s =
     (case m (jotter s) of
        Inl e \<Rightarrow> Inl e
      | Inr (j, evs) \<Rightarrow> Inr (s\<lparr>jotter := j, received := received s @ evs\<rparr>))"

text \<open>
  \<^verbatim>\<open>func Print(v ...interface{}) { jotter.Print(v...) }\<close>,
  \<^verbatim>\<open>func Printf(format string, v ...interface{}) { jotter.Printf(format, v...) }\<close>,
  \<^verbatim>\<open>func Println(v ...interface{}) { jotter.Println(v...) }\<close>
\<close>

definition Print :: "gval list \<Rightarrow> package \<Rightarrow> panic + package" where
  "Print v s = on_jotter (Jotter_Print v) s"

definition Printf :: "string \<Rightarrow> gval list \<Rightarrow> package \<Rightarrow> panic + package" where
  "Printf format v s = on_jotter (Jotter_Printf format v) s"

definition Println :: "gval list \<Rightarrow> package \<Rightarrow> panic + package" where
  "Println v s = on_jotter (Jotter_Println v) s"

subsection \<open>Programs that use the package\<close>

text \<open>
  A client is a sequence of calls to the package's functions. A panic ends it.
\<close>

datatype action =
  DoEnable
  | DoDisable
  | DoSetPrinter "Printer option"
  | DoPrint "gval list"
  | DoPrintf string "gval list"
  | DoPrintln "gval list"

fun call :: "action \<Rightarrow> package \<Rightarrow> panic + package" where
  "call DoEnable s = Inr (Enable s)"
| "call DoDisable s = Inr (Disable s)"
| "call (DoSetPrinter p) s = Inr (SetPrinter p s)"
| "call (DoPrint v) s = Print v s"
| "call (DoPrintf format v) s = Printf format v s"
| "call (DoPrintln v) s = Println v s"

fun run :: "action list \<Rightarrow> package \<Rightarrow> panic + package" where
  "run [] s = Inr s"
| "run (a # as) s = (case call a s of Inl e \<Rightarrow> Inl e | Inr s' \<Rightarrow> run as s')"

subsection \<open>The Gate of the specification\<close>

text \<open>
  The specification describes the package's functions as delegating to one shared
  Gate. The Gate's side of that comparison follows the specification's words, not
  \<^verbatim>\<open>jot.go\<close>.
\<close>

text \<open>
  Modelled from the spec: what a Gate does when \<^emph>\<open>SetSink\<close> is handed no sink. The
  specification leaves the choice open and names three: \<^emph>\<open>silently keep the previous
  Sink, substitute the default, or signal an error\<close>.
\<close>

datatype null_policy = KeepPrevious | SubstituteDefault | SignalError

text \<open>
  Modelled from the spec: the ways an operation on a Gate can fail. A failure of the
  forwarding is passed through; \<^emph>\<open>SetSink\<close> may \<^emph>\<open>signal an invalid-argument
  condition\<close>.
\<close>

datatype gate_error = GatePanic panic | InvalidArgument

text \<open>
  Modelled from the spec: the Gate's default sink, \<^emph>\<open>a standard-error-writing sink with
  timestamp prefixing enabled\<close>.
\<close>

definition Gate_default_sink :: Printer where
  "Gate_default_sink = LogLogger (log_New Stderr [] LstdFlags)"

text \<open>
  Modelled from the spec: the Gate's operation \<^emph>\<open>SetSink\<close>, which the sources do not
  have as a method. \<^emph>\<open>SetSink(sink) replaces the active Sink reference. Precondition:
  sink must be non-null; behavior if null is implementation-defined but must not
  silently corrupt state; recommended: reject or substitute default.\<close> Together with
  \<^emph>\<open>sink is never null after construction\<close>: under every policy the Gate holds a sink
  afterwards if it held one before.
\<close>

definition Gate_SetSink :: "null_policy \<Rightarrow> Printer option \<Rightarrow> Jotter \<Rightarrow> gate_error + Jotter" where
  "Gate_SetSink pol p j =
     (case p of
        Some q \<Rightarrow> Inr (j\<lparr>printer := Some q\<rparr>)
      | None \<Rightarrow>
          (case pol of
             KeepPrevious \<Rightarrow> Inr j
           | SubstituteDefault \<Rightarrow> Inr (j\<lparr>printer := Some Gate_default_sink\<rparr>)
           | SignalError \<Rightarrow> Inl InvalidArgument))"

text \<open>
  Modelled from the spec: one operation of a client, done on a Gate itself and not
  through the package's functions.
\<close>

fun gate_call :: "null_policy \<Rightarrow> action \<Rightarrow> Jotter \<Rightarrow> gate_error + Jotter \<times> event list" where
  "gate_call pol DoEnable j = Inr (Jotter_Enable j, [])"
| "gate_call pol DoDisable j = Inr (Jotter_Disable j, [])"
| "gate_call pol (DoSetPrinter p) j =
     (case Gate_SetSink pol p j of Inl e \<Rightarrow> Inl e | Inr j' \<Rightarrow> Inr (j', []))"
| "gate_call pol (DoPrint v) j = map_sum GatePanic id (Jotter_Print v j)"
| "gate_call pol (DoPrintf format v) j = map_sum GatePanic id (Jotter_Printf format v j)"
| "gate_call pol (DoPrintln v) j = map_sum GatePanic id (Jotter_Println v j)"

text \<open>
  Modelled from the spec: a client's sequence of operations, done on a Gate itself; the
  calls that printers receive are collected in order, and a failure ends the sequence.
\<close>

fun gate_run :: "null_policy \<Rightarrow> action list \<Rightarrow> Jotter \<Rightarrow> gate_error + Jotter \<times> event list" where
  "gate_run pol [] j = Inr (j, [])"
| "gate_run pol (a # as) j =
     (case gate_call pol a j of
        Inl e \<Rightarrow> Inl e
      | Inr (j', evs) \<Rightarrow>
          (case gate_run pol as j' of
             Inl e \<Rightarrow> Inl e
           | Inr (j'', evs') \<Rightarrow> Inr (j'', evs @ evs')))"

text \<open>
  Modelled from the spec: an operation done on the \<^emph>\<open>one shared default Gate\<close>, which
  is the package's variable \<^verbatim>\<open>jotter\<close>: the Gate is replaced by the one the operation
  leaves, and the calls it made follow those made before.
\<close>

definition on_gate :: "(Jotter \<Rightarrow> gate_error + Jotter \<times> event list) \<Rightarrow> package \<Rightarrow> gate_error + package" where
  "on_gate m s =
     (case m (jotter s) of
        Inl e \<Rightarrow> Inl e
      | Inr (j, evs) \<Rightarrow> Inr (s\<lparr>jotter := j, received := received s @ evs\<rparr>))"

text \<open>
  The outcome of one of the package's functions, read as the outcome of an operation on
  a Gate: a panic stays that panic.
\<close>

definition as_gate_outcome :: "panic + package \<Rightarrow> gate_error + package" where
  "as_gate_outcome r = map_sum GatePanic id r"

section \<open>Basic facts\<close>

lemmas jotter_methods =
  Jotter_Print_def Jotter_Printf_def Jotter_Println_def forward_def
  Jotter_Enable_def Jotter_Disable_def

lemmas package_functions =
  Print_def Printf_def Println_def Enable_def Disable_def SetPrinter_def on_jotter_def

lemma run_append:
  "run (as @ bs) s = (case run as s of Inl e \<Rightarrow> Inl e | Inr s' \<Rightarrow> run bs s')"
  by (induction as arbitrary: s) (simp_all split: sum.splits)

lemma run_snoc:
  "run as s0 = Inr s \<Longrightarrow> run (as @ [a]) s0 = call a s"
  by (simp add: run_append split: sum.splits)

lemma forward_enabled:
  "enabled j \<Longrightarrow> printer j = Some p \<Longrightarrow> forward c j = Inr (j, [(p, c)])"
  by (simp add: forward_def)

lemma forward_disabled:
  "\<not> enabled j \<Longrightarrow> forward c j = Inr (j, [])"
  by (simp add: forward_def)

lemma on_jotter_forward_enabled:
  "enabled (jotter s) \<Longrightarrow> printer (jotter s) = Some p \<Longrightarrow>
   on_jotter (forward c) s = Inr (s\<lparr>received := received s @ [(p, c)]\<rparr>)"
  by (simp add: on_jotter_def forward_enabled)

lemma on_jotter_forward_disabled:
  "\<not> enabled (jotter s) \<Longrightarrow> on_jotter (forward c) s = Inr s"
  by (simp add: on_jotter_def forward_disabled)

section \<open>Forwarding\<close>

text \<open>
  C1. After any sequence of calls that leaves the Jotter enabled, with printer \<open>p\<close>,
  a call of \<^verbatim>\<open>Print\<close>, \<^verbatim>\<open>Printf\<close> or \<^verbatim>\<open>Println\<close> succeeds and adds exactly one call
  to what printers have received: the call of the same name on \<open>p\<close>, with the same
  arguments (and the same format string). Nothing else changes.
\<close>

theorem enabled_forwards_one_call_verbatim:
  assumes "run as s0 = Inr s" and "enabled (jotter s)" and "printer (jotter s) = Some p"
  shows "run (as @ [DoPrint v]) s0 = Inr (s\<lparr>received := received s @ [(p, PrintCall v)]\<rparr>)
       \<and> run (as @ [DoPrintf format v]) s0
           = Inr (s\<lparr>received := received s @ [(p, PrintfCall format v)]\<rparr>)
       \<and> run (as @ [DoPrintln v]) s0
           = Inr (s\<lparr>received := received s @ [(p, PrintlnCall v)]\<rparr>)"
proof -
  have fw: "on_jotter (forward c) s = Inr (s\<lparr>received := received s @ [(p, c)]\<rparr>)" for c
    using assms(2,3) by (rule on_jotter_forward_enabled)
  have "call (DoPrint v) s = Inr (s\<lparr>received := received s @ [(p, PrintCall v)]\<rparr>)"
    using fw [of "PrintCall v"]
    by (simp add: Print_def Jotter_Print_def [abs_def])
  moreover have "call (DoPrintf format v) s
      = Inr (s\<lparr>received := received s @ [(p, PrintfCall format v)]\<rparr>)"
    using fw [of "PrintfCall format v"]
    by (simp add: Printf_def Jotter_Printf_def [abs_def])
  moreover have "call (DoPrintln v) s = Inr (s\<lparr>received := received s @ [(p, PrintlnCall v)]\<rparr>)"
    using fw [of "PrintlnCall v"]
    by (simp add: Println_def Jotter_Println_def [abs_def])
  ultimately show ?thesis
    using assms(1) by (simp add: run_snoc)
qed

theorem enabled_forwards_one_call_verbatim_witness:
  "run [DoSetPrinter (Some (CustomPrinter 7)), DoEnable] package_init
     = Inr \<lparr>jotter = \<lparr>enabled = True, printer = Some (CustomPrinter 7)\<rparr>, received = []\<rparr>
   \<and> run ([DoSetPrinter (Some (CustomPrinter 7)), DoEnable]
          @ [DoPrint [GString ''a'', GInt 2, GBool True]]) package_init
     = Inr \<lparr>jotter = \<lparr>enabled = True, printer = Some (CustomPrinter 7)\<rparr>,
            received = [(CustomPrinter 7, PrintCall [GString ''a'', GInt 2, GBool True])]\<rparr>"
  using enabled_forwards_one_call_verbatim
    [of "[DoSetPrinter (Some (CustomPrinter 7)), DoEnable]" package_init
        "\<lparr>jotter = \<lparr>enabled = True, printer = Some (CustomPrinter 7)\<rparr>, received = []\<rparr>"
        "CustomPrinter 7" "[GString ''a'', GInt 2, GBool True]"]
  by (simp add: package_init_def jotter_init_def package_functions jotter_methods)

text \<open>
  C2. After any sequence of calls that leaves the Jotter disabled, a call of
  \<^verbatim>\<open>Print\<close>, \<^verbatim>\<open>Printf\<close> or \<^verbatim>\<open>Println\<close> succeeds and changes nothing: no printer
  receives a call.
\<close>

theorem disabled_makes_no_call:
  assumes "run as s0 = Inr s" and "\<not> enabled (jotter s)"
  shows "run (as @ [DoPrint v]) s0 = Inr s
       \<and> run (as @ [DoPrintf format v]) s0 = Inr s
       \<and> run (as @ [DoPrintln v]) s0 = Inr s"
proof -
  have fw: "on_jotter (forward c) s = Inr s" for c
    using assms(2) by (rule on_jotter_forward_disabled)
  have "call (DoPrint v) s = Inr s"
    using fw [of "PrintCall v"] by (simp add: Print_def Jotter_Print_def [abs_def])
  moreover have "call (DoPrintf format v) s = Inr s"
    using fw [of "PrintfCall format v"] by (simp add: Printf_def Jotter_Printf_def [abs_def])
  moreover have "call (DoPrintln v) s = Inr s"
    using fw [of "PrintlnCall v"] by (simp add: Println_def Jotter_Println_def [abs_def])
  ultimately show ?thesis
    using assms(1) by (simp add: run_snoc)
qed

theorem disabled_makes_no_call_witness:
  "run [DoEnable, DoPrint [GString ''x''], DoDisable] package_init
     = Inr \<lparr>jotter = jotter_init,
            received = [(LogLogger (log_New Stderr [] LstdFlags), PrintCall [GString ''x''])]\<rparr>
   \<and> \<not> enabled jotter_init
   \<and> run ([DoEnable, DoPrint [GString ''x''], DoDisable] @ [DoPrintln [GString ''y'']])
        package_init
     = Inr \<lparr>jotter = jotter_init,
            received = [(LogLogger (log_New Stderr [] LstdFlags), PrintCall [GString ''x''])]\<rparr>"
  using disabled_makes_no_call
    [of "[DoEnable, DoPrint [GString ''x''], DoDisable]" package_init
        "\<lparr>jotter = jotter_init,
          received = [(LogLogger (log_New Stderr [] LstdFlags), PrintCall [GString ''x''])]\<rparr>"
        "[GString ''y'']"]
  by (simp add: package_init_def jotter_init_def package_functions jotter_methods)

section \<open>The sink reference\<close>

lemma call_keeps_printer:
  "call a s = Inr s' \<Longrightarrow> a \<noteq> DoSetPrinter None \<Longrightarrow> printer (jotter s) \<noteq> None
   \<Longrightarrow> printer (jotter s') \<noteq> None"
  by (cases a) (auto simp: package_functions jotter_methods split: if_splits option.splits)

lemma run_keeps_printer:
  "run as s0 = Inr s \<Longrightarrow> printer (jotter s0) \<noteq> None \<Longrightarrow> DoSetPrinter None \<notin> set as
   \<Longrightarrow> printer (jotter s) \<noteq> None"
proof (induction as arbitrary: s0)
  case Nil
  then show ?case by simp
next
  case (Cons a as)
  from Cons.prems(1) obtain s1 where s1: "call a s0 = Inr s1" and rest: "run as s1 = Inr s"
    by (auto split: sum.splits)
  from Cons.prems(3) have "a \<noteq> DoSetPrinter None" and no_nil: "DoSetPrinter None \<notin> set as"
    by auto
  with s1 Cons.prems(2) have "printer (jotter s1) \<noteq> None"
    using call_keeps_printer by blast
  from Cons.IH [OF rest this no_nil] show ?case .
qed

text \<open>
  C3, as the code has it. The package's Jotter starts with a printer. \<^verbatim>\<open>SetPrinter\<close>
  checks nothing: the field holds afterwards what was passed, a printer if one was
  passed and nil if nil was. Whatever state a sequence of calls reaches, if the sequence
  started with a printer set and passed no nil to \<^verbatim>\<open>SetPrinter\<close>, a printer is set
  in that state. (The sequence is any sequence, so this holds after each of its calls.)
\<close>

theorem printer_set_unless_nil_is_passed:
  assumes "printer (jotter s0) \<noteq> None" and "DoSetPrinter None \<notin> set as"
    and "run as s0 = Inr s"
  shows "printer (jotter package_init) \<noteq> None
       \<and> printer (jotter (SetPrinter p s1)) = p
       \<and> printer (jotter s) \<noteq> None"
  using run_keeps_printer [OF assms(3) assms(1) assms(2)]
  by (simp add: package_init_def jotter_init_def SetPrinter_def)

theorem printer_set_unless_nil_is_passed_witness:
  "printer (jotter package_init) \<noteq> None
   \<and> DoSetPrinter None \<notin> set [DoEnable, DoSetPrinter (Some (CustomPrinter 1)), DoPrint [GInt 5]]
   \<and> run [DoEnable, DoSetPrinter (Some (CustomPrinter 1)), DoPrint [GInt 5]] package_init
       = Inr \<lparr>jotter = \<lparr>enabled = True, printer = Some (CustomPrinter 1)\<rparr>,
              received = [(CustomPrinter 1, PrintCall [GInt 5])]\<rparr>
   \<and> printer (jotter (SetPrinter (Some (CustomPrinter 2)) package_init)) = Some (CustomPrinter 2)
   \<and> printer (jotter \<lparr>jotter = \<lparr>enabled = True, printer = Some (CustomPrinter 1)\<rparr>,
                      received = [(CustomPrinter 1, PrintCall [GInt 5])]\<rparr>) \<noteq> None"
  using printer_set_unless_nil_is_passed
    [of package_init "[DoEnable, DoSetPrinter (Some (CustomPrinter 1)), DoPrint [GInt 5]]"
        "\<lparr>jotter = \<lparr>enabled = True, printer = Some (CustomPrinter 1)\<rparr>,
          received = [(CustomPrinter 1, PrintCall [GInt 5])]\<rparr>"
        "Some (CustomPrinter 2)" package_init]
  by (simp add: package_init_def jotter_init_def package_functions jotter_methods)

text \<open>
  C3, as the specification has it, fails: passing nil to \<^verbatim>\<open>SetPrinter\<close> on the
  package as it starts, where a printer is set, leaves the Jotter with no printer. The
  argument is not refused (the state has changed) and the default is not put in its
  place (the field is nil).
\<close>

theorem SetPrinter_nil_unsets_printer:
  "printer (jotter package_init) \<noteq> None
   \<and> printer (jotter (SetPrinter None package_init)) = None
   \<and> SetPrinter None package_init \<noteq> package_init"
  by (simp add: package_init_def jotter_init_def SetPrinter_def)

section \<open>The package's functions and the Gate's operations\<close>

lemma call_is_gate_call:
  "a \<noteq> DoSetPrinter None \<Longrightarrow> as_gate_outcome (call a s) = on_gate (gate_call pol a) s"
proof (cases a)
  case (DoSetPrinter p)
  assume "a \<noteq> DoSetPrinter None"
  with DoSetPrinter obtain q where "p = Some q"
    by (cases p) auto
  with DoSetPrinter show ?thesis
    by (simp add: as_gate_outcome_def on_gate_def SetPrinter_def Gate_SetSink_def)
qed (simp_all add: as_gate_outcome_def on_gate_def package_functions
    split: sum.splits prod.splits)

lemma run_is_gate_run:
  "DoSetPrinter None \<notin> set as \<Longrightarrow> as_gate_outcome (run as s) = on_gate (gate_run pol as) s"
proof (induction as arbitrary: s)
  case Nil
  show ?case by (simp add: as_gate_outcome_def on_gate_def)
next
  case (Cons a as)
  from Cons.prems have a: "a \<noteq> DoSetPrinter None" and rest: "DoSetPrinter None \<notin> set as"
    by auto
  note step = call_is_gate_call [OF a, of s pol]
  show ?case
  proof (cases "call a s")
    case (Inl e)
    with step have "on_gate (gate_call pol a) s = Inl (GatePanic e)"
      by (simp add: as_gate_outcome_def)
    then have "gate_call pol a (jotter s) = Inl (GatePanic e)"
      by (auto simp: on_gate_def split: sum.splits prod.splits)
    with Inl show ?thesis
      by (simp add: as_gate_outcome_def on_gate_def)
  next
    case (Inr s1)
    with step obtain j evs where g: "gate_call pol a (jotter s) = Inr (j, evs)"
      and s1: "s1 = s\<lparr>jotter := j, received := received s @ evs\<rparr>"
      by (auto simp: as_gate_outcome_def on_gate_def split: sum.splits prod.splits)
    have "as_gate_outcome (run (a # as) s) = on_gate (gate_run pol as) s1"
      using Inr Cons.IH [OF rest, of s1] by simp
    also have "\<dots> = on_gate (gate_run pol (a # as)) s"
      using g s1 by (simp add: on_gate_def split: sum.splits prod.splits)
    finally show ?thesis .
  qed
qed

text \<open>
  C4, as the code has it. \<^verbatim>\<open>Enable\<close>, \<^verbatim>\<open>Disable\<close>, \<^verbatim>\<open>Print\<close>, \<^verbatim>\<open>Printf\<close> and
  \<^verbatim>\<open>Println\<close>, for every argument list, and \<^verbatim>\<open>SetPrinter\<close> for every printer that
  is not nil, do to the package's Jotter and to what printers receive what the Gate's
  operation of the same name does: the same new state, the same calls to printers, the
  same panic if there is one, whichever way the Gate treats a missing sink. The same
  holds for every sequence of calls that passes no nil to \<^verbatim>\<open>SetPrinter\<close>. With nil,
  \<^verbatim>\<open>SetPrinter\<close> returns and leaves the field nil.
\<close>

theorem package_functions_delegate:
  assumes "DoSetPrinter None \<notin> set as"
  shows "as_gate_outcome (Inr (Enable s)) = on_gate (gate_call pol DoEnable) s
       \<and> as_gate_outcome (Inr (Disable s)) = on_gate (gate_call pol DoDisable) s
       \<and> as_gate_outcome (Inr (SetPrinter (Some q) s))
           = on_gate (gate_call pol (DoSetPrinter (Some q))) s
       \<and> as_gate_outcome (Print v s) = on_gate (gate_call pol (DoPrint v)) s
       \<and> as_gate_outcome (Printf format v s) = on_gate (gate_call pol (DoPrintf format v)) s
       \<and> as_gate_outcome (Println v s) = on_gate (gate_call pol (DoPrintln v)) s
       \<and> as_gate_outcome (run as s) = on_gate (gate_run pol as) s
       \<and> printer (jotter (SetPrinter None s)) = None"
  using call_is_gate_call [of DoEnable s pol] call_is_gate_call [of DoDisable s pol]
    call_is_gate_call [of "DoSetPrinter (Some q)" s pol]
    call_is_gate_call [of "DoPrint v" s pol]
    call_is_gate_call [of "DoPrintf format v" s pol]
    call_is_gate_call [of "DoPrintln v" s pol]
    run_is_gate_run [OF assms, of s pol]
  by (simp add: SetPrinter_def)

theorem package_functions_delegate_witness:
  "DoSetPrinter None \<notin> set [DoSetPrinter (Some (CustomPrinter 4)), DoEnable, DoPrintf ''%d'' [GInt 9]]
   \<and> as_gate_outcome
       (run [DoSetPrinter (Some (CustomPrinter 4)), DoEnable, DoPrintf ''%d'' [GInt 9]]
          package_init)
     = Inr \<lparr>jotter = \<lparr>enabled = True, printer = Some (CustomPrinter 4)\<rparr>,
            received = [(CustomPrinter 4, PrintfCall ''%d'' [GInt 9])]\<rparr>
   \<and> on_gate
       (gate_run SignalError
          [DoSetPrinter (Some (CustomPrinter 4)), DoEnable, DoPrintf ''%d'' [GInt 9]])
       package_init
     = Inr \<lparr>jotter = \<lparr>enabled = True, printer = Some (CustomPrinter 4)\<rparr>,
            received = [(CustomPrinter 4, PrintfCall ''%d'' [GInt 9])]\<rparr>"
  using package_functions_delegate
    [of "[DoSetPrinter (Some (CustomPrinter 4)), DoEnable, DoPrintf ''%d'' [GInt 9]]"
        package_init SignalError]
  by (simp add: as_gate_outcome_def package_init_def jotter_init_def package_functions
      jotter_methods)

text \<open>
  C4, as the specification has it, fails at \<^verbatim>\<open>SetPrinter(nil)\<close>. On the package as
  it starts the function returns with the field nil; the Gate's \<^emph>\<open>SetSink\<close> keeps the
  sink it had, or puts the default in its place, or signals an error, and none of the
  three is that outcome.
\<close>

theorem SetPrinter_nil_is_not_SetSink:
  "as_gate_outcome (call (DoSetPrinter None) package_init)
     = Inr \<lparr>jotter = \<lparr>enabled = False, printer = None\<rparr>, received = []\<rparr>
   \<and> on_gate (gate_call KeepPrevious (DoSetPrinter None)) package_init = Inr package_init
   \<and> on_gate (gate_call SubstituteDefault (DoSetPrinter None)) package_init = Inr package_init
   \<and> on_gate (gate_call SignalError (DoSetPrinter None)) package_init = Inl InvalidArgument
   \<and> as_gate_outcome (call (DoSetPrinter None) package_init)
       \<noteq> on_gate (gate_call KeepPrevious (DoSetPrinter None)) package_init
   \<and> as_gate_outcome (call (DoSetPrinter None) package_init)
       \<noteq> on_gate (gate_call SubstituteDefault (DoSetPrinter None)) package_init
   \<and> as_gate_outcome (call (DoSetPrinter None) package_init)
       \<noteq> on_gate (gate_call SignalError (DoSetPrinter None)) package_init"
  by (simp add: as_gate_outcome_def on_gate_def Gate_SetSink_def Gate_default_sink_def
      SetPrinter_def package_init_def jotter_init_def)

section \<open>The default instance\<close>

lemma call_without_Enable:
  "\<not> enabled (jotter s) \<Longrightarrow> a \<noteq> DoEnable
   \<Longrightarrow> \<exists>s'. call a s = Inr s' \<and> \<not> enabled (jotter s') \<and> received s' = received s"
  by (cases a) (simp_all add: package_functions jotter_methods)

lemma run_without_Enable:
  "\<not> enabled (jotter s0) \<Longrightarrow> DoEnable \<notin> set as
   \<Longrightarrow> \<exists>s. run as s0 = Inr s \<and> \<not> enabled (jotter s) \<and> received s = received s0"
proof (induction as arbitrary: s0)
  case Nil
  then show ?case by simp
next
  case (Cons a as)
  from Cons.prems have "a \<noteq> DoEnable" and rest: "DoEnable \<notin> set as"
    by auto
  with Cons.prems(1) obtain s1 where
    s1: "call a s0 = Inr s1" "\<not> enabled (jotter s1)" "received s1 = received s0"
    using call_without_Enable by blast
  from Cons.IH [OF s1(2) rest] s1(1,3) show ?case by simp
qed

text \<open>
  C5. The package's Jotter starts disabled. A \<^verbatim>\<open>Print\<close> on the package as it starts
  changes nothing, and after any sequence of calls without an \<^verbatim>\<open>Enable\<close> a \<^verbatim>\<open>Print\<close>
  succeeds with no printer having received any call.
\<close>

theorem default_instance_starts_disabled:
  assumes "DoEnable \<notin> set as"
  shows "\<not> enabled (jotter package_init)
       \<and> Print v package_init = Inr package_init
       \<and> (\<exists>s. run (as @ [DoPrint v]) package_init = Inr s \<and> received s = [])"
proof -
  have init: "\<not> enabled (jotter package_init)" "received package_init = []"
    by (simp_all add: package_init_def jotter_init_def)
  have "DoEnable \<notin> set (as @ [DoPrint v])"
    using assms by simp
  from run_without_Enable [OF init(1) this] init(2)
  have "\<exists>s. run (as @ [DoPrint v]) package_init = Inr s \<and> received s = []"
    by auto
  moreover have "Print v package_init = Inr package_init"
    using init(1) by (simp add: Print_def Jotter_Print_def [abs_def] on_jotter_forward_disabled)
  ultimately show ?thesis
    using init(1) by simp
qed

theorem default_instance_starts_disabled_witness:
  "DoEnable \<notin> set [DoDisable, DoSetPrinter (Some (CustomPrinter 3)), DoPrintln [GInt 1]]
   \<and> \<not> enabled (jotter package_init)
   \<and> Print [GString ''hello''] package_init = Inr package_init
   \<and> (\<exists>s. run ([DoDisable, DoSetPrinter (Some (CustomPrinter 3)), DoPrintln [GInt 1]]
               @ [DoPrint [GString ''hello'']]) package_init = Inr s
          \<and> received s = [])"
  using default_instance_starts_disabled
    [of "[DoDisable, DoSetPrinter (Some (CustomPrinter 3)), DoPrintln [GInt 1]]"
        "[GString ''hello'']"]
  by simp

lemma flag_bits:
  "Ldate = 1" "Ltime = 2" "Lmicroseconds = 4" "Llongfile = 8" "Lshortfile = 16"
  "LUTC = 32" "Lmsgprefix = 64"
  by (simp_all add: Ldate_def Ltime_def Lmicroseconds_def Llongfile_def Lshortfile_def
      LUTC_def Lmsgprefix_def)

lemma LstdFlags_value: "LstdFlags = 3"
  by (simp add: LstdFlags_def flag_bits)

lemma LstdFlags_bits:
  "has_flag LstdFlags Ldate" "has_flag LstdFlags Ltime"
  "\<not> has_flag LstdFlags Lmicroseconds" "\<not> has_flag LstdFlags Llongfile"
  "\<not> has_flag LstdFlags Lshortfile" "\<not> has_flag LstdFlags LUTC"
  "\<not> has_flag LstdFlags Lmsgprefix"
  by (simp_all add: has_flag_def LstdFlags_value flag_bits)

text \<open>
  C9. The printer of the package's Jotter, as the package starts, is a logger made by
  \<^verbatim>\<open>log.New\<close>: it writes to the standard error stream, its prefix is empty, and its
  flags are the standard ones, that is the date and the time of day and nothing more:
  no switch to UTC (so local time), no microseconds, no file name, no moved prefix.
\<close>

theorem default_printer_is_stderr_logger:
  "\<exists>l. printer (jotter package_init) = Some (LogLogger l)
       \<and> l = log_New Stderr [] LstdFlags
       \<and> out l = Stderr \<and> prefix l = [] \<and> flag l = Ldate OR Ltime
       \<and> has_flag (flag l) Ldate \<and> has_flag (flag l) Ltime
       \<and> \<not> has_flag (flag l) LUTC \<and> \<not> has_flag (flag l) Lmicroseconds
       \<and> \<not> has_flag (flag l) Llongfile \<and> \<not> has_flag (flag l) Lshortfile
       \<and> \<not> has_flag (flag l) Lmsgprefix"
  by (simp add: package_init_def jotter_init_def log_New_def LstdFlags_bits)
    (simp add: LstdFlags_def)

section \<open>Changing the printer, enabling and disabling\<close>

text \<open>
  C6. \<^verbatim>\<open>SetPrinter\<close> leaves the flag as it was, enabled or disabled, and makes no
  call to a printer; the field holds the new printer afterwards. The next \<^verbatim>\<open>Print\<close>,
  \<^verbatim>\<open>Printf\<close> or \<^verbatim>\<open>Println\<close>, if the Jotter is enabled, is one call to the new
  printer, and is no call at all if it is disabled.
\<close>

theorem SetPrinter_changes_printer_only:
  "enabled (jotter (SetPrinter p s)) = enabled (jotter s)
   \<and> received (SetPrinter p s) = received s
   \<and> printer (jotter (SetPrinter p s)) = p
   \<and> Print v (SetPrinter (Some q) s)
       = Inr (if enabled (jotter s)
              then (SetPrinter (Some q) s)\<lparr>received := received s @ [(q, PrintCall v)]\<rparr>
              else SetPrinter (Some q) s)
   \<and> Printf format v (SetPrinter (Some q) s)
       = Inr (if enabled (jotter s)
              then (SetPrinter (Some q) s)\<lparr>received := received s @ [(q, PrintfCall format v)]\<rparr>
              else SetPrinter (Some q) s)
   \<and> Println v (SetPrinter (Some q) s)
       = Inr (if enabled (jotter s)
              then (SetPrinter (Some q) s)\<lparr>received := received s @ [(q, PrintlnCall v)]\<rparr>
              else SetPrinter (Some q) s)"
  by (simp add: package_functions jotter_methods)

text \<open>
  C7. \<^verbatim>\<open>Enable\<close> and then \<^verbatim>\<open>Disable\<close> leaves the Jotter disabled, whatever its state
  before: the result is that of \<^verbatim>\<open>Disable\<close> alone. The same holds of the two methods
  on any Jotter.
\<close>

theorem Enable_then_Disable_is_disabled:
  "\<not> enabled (jotter (Disable (Enable s)))
   \<and> Disable (Enable s) = Disable s
   \<and> run [DoEnable, DoDisable] s = Inr (Disable s)
   \<and> \<not> enabled (Jotter_Disable (Jotter_Enable j))
   \<and> Jotter_Disable (Jotter_Enable j) = Jotter_Disable j"
  by (simp add: Enable_def Disable_def Jotter_Enable_def Jotter_Disable_def)

text \<open>
  C8. \<^verbatim>\<open>Enable\<close> twice is \<^verbatim>\<open>Enable\<close> once, and \<^verbatim>\<open>Disable\<close> twice is \<^verbatim>\<open>Disable\<close>
  once, for the package's functions and for the methods; neither can fail, and each
  leaves the flag as its name says.
\<close>

theorem Enable_Disable_idempotent:
  "Enable (Enable s) = Enable s
   \<and> Disable (Disable s) = Disable s
   \<and> run [DoEnable, DoEnable] s = run [DoEnable] s
   \<and> run [DoDisable, DoDisable] s = run [DoDisable] s
   \<and> Jotter_Enable (Jotter_Enable j) = Jotter_Enable j
   \<and> Jotter_Disable (Jotter_Disable j) = Jotter_Disable j
   \<and> enabled (Jotter_Enable j) \<and> \<not> enabled (Jotter_Disable j)"
  by (simp add: Enable_def Disable_def Jotter_Enable_def Jotter_Disable_def)

end
